theory Spec2Isabelle
  imports Main "HOL-Library.AList" "HOL-Library.Word"
begin

section \<open>The in-memory file relay of \<^verbatim>\<open>local-server.js\<close>\<close>

text \<open>
  The server keeps two JavaScript \<^verbatim>\<open>Map\<close>s, \<^verbatim>\<open>fileStorage\<close> and
  \<^verbatim>\<open>fileMetadata\<close>, both keyed by the file id. A \<^verbatim>\<open>Map\<close> iterates in insertion
  order, \<^verbatim>\<open>set\<close> on a key that is present replaces the value in place and \<^verbatim>\<open>set\<close> on a
  new key appends, \<^verbatim>\<open>delete\<close> removes the entry: this is an association list with
  \<open>AList.update\<close>, \<open>AList.delete\<close> and \<open>map_of\<close>.

  What the handlers read from their environment is a parameter of the model: the value of
  \<^verbatim>\<open>uuidv4()\<close>, the string \<^verbatim>\<open>Math.random().toString(36)\<close>, the value of
  \<^verbatim>\<open>Date.now()\<close> (milliseconds), and the file part that multer decoded from the request.

  A file name is text that the client chose, and the handlers copy it into a response
  header, where the characters matter one by one. It is therefore kept as JavaScript has
  it, a sequence of UTF-16 code units. Media types, ids and short codes are only ever
  compared with each other and with ASCII literals, and stay byte strings.
\<close>

subsection \<open>Data\<close>

type_synonym byte = "8 word"

text \<open>A UTF-16 code unit, and a JavaScript string as the sequence of its code units.\<close>

type_synonym js_char = "16 word"

type_synonym js_string = "js_char list"

text \<open>A byte string read as a JavaScript string, one code unit per character.\<close>

definition lit :: "string \<Rightarrow> js_string" where
  "lit s = map of_char s"

text \<open>The file part of the multipart request, as multer receives it.\<close>

record part =
  p_filename :: js_string
  p_mimetype :: string
  p_data :: "byte list"

text \<open>\<^verbatim>\<open>req.file\<close>, and the entries of \<^verbatim>\<open>fileStorage\<close> (the same four fields).\<close>

record file_entry =
  f_buffer :: "byte list"
  f_mimetype :: string
  f_originalname :: js_string
  f_size :: nat

text \<open>
  The entries of \<^verbatim>\<open>fileMetadata\<close>. \<open>m_uploadTime\<close> is the instant whose ISO rendering
  the source stores; \<open>m_previewUrl\<close> is \<open>None\<close> for the source's \<^verbatim>\<open>null\<close>.
\<close>

record metadata =
  m_fileId :: string
  m_shortCode :: string
  m_originalName :: js_string
  m_size :: nat
  m_mimetype :: string
  m_uploadTime :: int
  m_expirationTime :: int
  m_previewable :: bool
  m_downloadUrl :: string
  m_previewUrl :: "string option"

record store =
  fileStorage :: "(string \<times> file_entry) list"
  fileMetadata :: "(string \<times> metadata) list"

text \<open>The JSON body of a successful upload.\<close>

record upload_response =
  r_shortCode :: string
  r_downloadUrl :: string
  r_previewUrl :: "string option"
  r_filename :: js_string
  r_size :: nat
  r_previewable :: bool
  r_expiresAt :: int

text \<open>The headers and body that download and preview send.\<close>

record payload =
  content_disposition :: js_string
  content_type :: string
  body :: "byte list"

text \<open>
  The failures of the three routes. \<open>FileTypeNotAllowed\<close> is the \<^verbatim>\<open>Error\<close> that
  \<^verbatim>\<open>fileFilter\<close> passes to its callback and \<open>LimitFileSize\<close> is multer's
  \<^verbatim>\<open>LIMIT_FILE_SIZE\<close>; neither reaches the route handler. \<open>DownloadFailed\<close> and
  \<open>PreviewFailed\<close> are the answers of the \<^verbatim>\<open>catch\<close> blocks of the two read handlers.
  \<open>NoRouteMatched\<close> is the framework's answer to a request path that no route matches.
  The others are the handlers' own responses.
\<close>

datatype error =
    NoFileSelected
  | FileNotFound
  | FileDataNotFound
  | CannotPreview
  | FileExpired
  | FileTypeNotAllowed
  | LimitFileSize
  | DownloadFailed
  | PreviewFailed
  | NoRouteMatched

text \<open>
  The HTTP status of each failure. The source has no error-handling middleware, so the two
  multer failures end in the framework's default handler.
\<close>

fun status :: "error \<Rightarrow> nat" where
  "status NoFileSelected = 400"
| "status FileNotFound = 404"
| "status FileDataNotFound = 404"
| "status CannotPreview = 403"
| "status FileExpired = 410"
| "status FileTypeNotAllowed = 500"
| "status LimitFileSize = 500"
| "status DownloadFailed = 500"
| "status PreviewFailed = 500"
| "status NoRouteMatched = 404"

definition empty_store :: store where
  "empty_store = \<lparr>fileStorage = [], fileMetadata = []\<rparr>"

subsection \<open>Strings\<close>

text \<open>\<^verbatim>\<open>s.startsWith(p)\<close>.\<close>

definition startsWith :: "string \<Rightarrow> string \<Rightarrow> bool" where
  "startsWith s p = (take (length p) s = p)"

text \<open>\<^verbatim>\<open>s.substring(a, b)\<close> for \<open>a \<le> b\<close>: both indices are clamped to the length.\<close>

definition substring :: "nat \<Rightarrow> nat \<Rightarrow> string \<Rightarrow> string" where
  "substring a b s = take (b - a) (drop a s)"

text \<open>
  \<^verbatim>\<open>s.toUpperCase()\<close> on the characters a base-36 rendering consists of: the letters
  \<open>a\<close> to \<open>z\<close> become \<open>A\<close> to \<open>Z\<close>, digits and punctuation stay.
\<close>

definition upper_table :: "(char \<times> char) list" where
  "upper_table = zip ''abcdefghijklmnopqrstuvwxyz'' ''ABCDEFGHIJKLMNOPQRSTUVWXYZ''"

definition toUpperCase_char :: "char \<Rightarrow> char" where
  "toUpperCase_char c = (case map_of upper_table c of Some u \<Rightarrow> u | None \<Rightarrow> c)"

definition toUpperCase :: "string \<Rightarrow> string" where
  "toUpperCase s = map toUpperCase_char s"

subsection \<open>The code generator and the preview test\<close>

text \<open>
  \<^verbatim>\<open>Math.random().toString(36).substring(2, 8).toUpperCase()\<close>; the argument is the
  string \<^verbatim>\<open>Math.random().toString(36)\<close>, for instance \<open>''0.k3f9x2abc''\<close>.
\<close>

definition generateShortCode :: "string \<Rightarrow> string" where
  "generateShortCode rendered = toUpperCase (substring 2 8 rendered)"

definition isPreviewable :: "string \<Rightarrow> bool" where
  "isPreviewable mimetype \<longleftrightarrow>
     startsWith mimetype ''image/'' \<or>
     startsWith mimetype ''video/'' \<or>
     startsWith mimetype ''audio/'' \<or>
     startsWith mimetype ''text/'' \<or>
     mimetype = ''application/pdf''"

subsection \<open>The multer middleware\<close>

definition allowedTypes :: "string list" where
  "allowedTypes =
    [''image/jpeg'', ''image/jpg'', ''image/png'', ''image/gif'', ''image/webp'',
     ''video/mp4'', ''video/webm'',
     ''audio/mpeg'', ''audio/wav'',
     ''text/plain'', ''application/pdf'']"

definition fileFilter :: "string \<Rightarrow> bool" where
  "fileFilter mimetype \<longleftrightarrow> mimetype \<in> set allowedTypes"

definition fileSize :: nat where
  "fileSize = 10 * 1024 * 1024"

text \<open>
  \<^verbatim>\<open>upload.single('file')\<close> with memory storage. multer calls \<^verbatim>\<open>fileFilter\<close> when the
  part's headers arrive, before it reads the part's bytes; a part that passes is buffered,
  and one longer than \<^verbatim>\<open>limits.fileSize\<close> is refused. A request without a file part
  goes on to the handler with \<^verbatim>\<open>req.file\<close> undefined. A part of exactly
  \<^verbatim>\<open>limits.fileSize\<close> bytes is taken as accepted; no property below depends on that
  boundary.
\<close>

definition upload_single :: "part option \<Rightarrow> error + file_entry option" where
  "upload_single p =
     (case p of
        None \<Rightarrow> Inr None
      | Some pt \<Rightarrow>
          if \<not> fileFilter (p_mimetype pt) then Inl FileTypeNotAllowed
          else if length (p_data pt) > fileSize then Inl LimitFileSize
          else Inr (Some \<lparr>f_buffer = p_data pt, f_mimetype = p_mimetype pt,
                          f_originalname = p_filename pt, f_size = length (p_data pt)\<rparr>))"

subsection \<open>Upload\<close>

definition ttl :: int where
  "ttl = 3 * 60 * 60 * 1000"

text \<open>The handler of \<^verbatim>\<open>POST /upload\<close>. Nothing in its body can throw in this model.\<close>

definition upload_handler ::
  "store \<Rightarrow> string \<Rightarrow> string \<Rightarrow> int \<Rightarrow> file_entry option \<Rightarrow> (error + upload_response) \<times> store" where
  "upload_handler s fileId rendered now req_file =
     (case req_file of
        None \<Rightarrow> (Inl NoFileSelected, s)
      | Some f \<Rightarrow>
          let shortCode = generateShortCode rendered;
              expirationTime = now + ttl;
              s1 = s\<lparr>fileStorage := AList.update fileId
                     \<lparr>f_buffer = f_buffer f, f_mimetype = f_mimetype f,
                      f_originalname = f_originalname f, f_size = f_size f\<rparr>
                     (fileStorage s)\<rparr>;
              s2 = s1\<lparr>fileMetadata := AList.update fileId
                     \<lparr>m_fileId = fileId, m_shortCode = shortCode,
                      m_originalName = f_originalname f, m_size = f_size f,
                      m_mimetype = f_mimetype f, m_uploadTime = now,
                      m_expirationTime = expirationTime,
                      m_previewable = isPreviewable (f_mimetype f),
                      m_downloadUrl = ''/api/download/'' @ shortCode,
                      m_previewUrl = (if isPreviewable (f_mimetype f)
                                      then Some (''/api/preview/'' @ shortCode) else None)\<rparr>
                     (fileMetadata s1)\<rparr>
          in (Inr \<lparr>r_shortCode = shortCode,
                   r_downloadUrl = ''/api/download/'' @ shortCode,
                   r_previewUrl = (if isPreviewable (f_mimetype f)
                                   then Some (''/api/preview/'' @ shortCode) else None),
                   r_filename = f_originalname f,
                   r_size = f_size f,
                   r_previewable = isPreviewable (f_mimetype f),
                   r_expiresAt = expirationTime\<rparr>, s2))"

text \<open>The route: the middleware, then the handler.\<close>

definition upload ::
  "store \<Rightarrow> string \<Rightarrow> string \<Rightarrow> int \<Rightarrow> part option \<Rightarrow> (error + upload_response) \<times> store" where
  "upload s fileId rendered now p =
     (case upload_single p of
        Inl e \<Rightarrow> (Inl e, s)
      | Inr req_file \<Rightarrow> upload_handler s fileId rendered now req_file)"

text \<open>The callback that upload hands to \<^verbatim>\<open>setTimeout\<close>, closed over \<open>fileId\<close>.\<close>

definition cleanup :: "string \<Rightarrow> store \<Rightarrow> store" where
  "cleanup fileId s =
     (if map_of (fileStorage s) fileId \<noteq> None
      then s\<lparr>fileStorage := AList.delete fileId (fileStorage s),
             fileMetadata := AList.delete fileId (fileMetadata s)\<rparr>
      else s)"

subsection \<open>Download and preview\<close>

text \<open>
  The loop over \<^verbatim>\<open>fileMetadata.entries()\<close> that stops at the first entry with the code.
\<close>

definition findByCode :: "(string \<times> metadata) list \<Rightarrow> string \<Rightarrow> (string \<times> metadata) option" where
  "findByCode entries code = find (\<lambda>(id, meta). m_shortCode meta = code) entries"

text \<open>The two deletions of the expired branch.\<close>

definition evict :: "string \<Rightarrow> store \<Rightarrow> store" where
  "evict fileId s =
     s\<lparr>fileStorage := AList.delete fileId (fileStorage s),
       fileMetadata := AList.delete fileId (fileMetadata s)\<rparr>"

text \<open>The template literal \<^verbatim>\<open>`${kind}; filename="${name}"`\<close>.\<close>

definition header :: "string \<Rightarrow> js_string \<Rightarrow> js_string" where
  "header kind name = lit kind @ lit ''; filename='' @ [0x22] @ name @ [0x22]"

text \<open>
  \<^verbatim>\<open>res.setHeader(name, value)\<close> throws when the value holds a code unit other than a
  tab, 0x20 to 0x7e, or 0x80 to 0xff: a control character, DEL, or anything above 0xff.
\<close>

definition header_char :: "js_char \<Rightarrow> bool" where
  "header_char c \<longleftrightarrow> c = 0x09 \<or> (0x20 \<le> c \<and> c \<le> 0x7e) \<or> (0x80 \<le> c \<and> c \<le> 0xff)"

definition valid_header_value :: "js_string \<Rightarrow> bool" where
  "valid_header_value v = list_all header_char v"

text \<open>
  The handler of \<^verbatim>\<open>GET /api/download/:code\<close>. \<^verbatim>\<open>!fileId\<close> holds when the loop found
  nothing and also when the id found is the empty string; a metadata object is never falsy.
  The two \<^verbatim>\<open>setHeader\<close> calls are the statements of the \<^verbatim>\<open>try\<close> block that can
  throw; the \<^verbatim>\<open>catch\<close> block answers 500 and touches neither map. The handler is
  reached through the route \<open>get_download\<close> below, which hands it non-empty codes only.
\<close>

definition download :: "store \<Rightarrow> string \<Rightarrow> int \<Rightarrow> (error + payload) \<times> store" where
  "download s code now =
     (case findByCode (fileMetadata s) code of
        None \<Rightarrow> (Inl FileNotFound, s)
      | Some (fileId, meta) \<Rightarrow>
          if fileId = [] then (Inl FileNotFound, s)
          else (case map_of (fileStorage s) fileId of
                  None \<Rightarrow> (Inl FileDataNotFound, s)
                | Some fileData \<Rightarrow>
                    if now > m_expirationTime meta then (Inl FileExpired, evict fileId s)
                    else if \<not> valid_header_value (header ''attachment'' (m_originalName meta))
                      then (Inl DownloadFailed, s)
                    else if \<not> valid_header_value (lit (m_mimetype meta))
                      then (Inl DownloadFailed, s)
                    else (Inr \<lparr>content_disposition = header ''attachment'' (m_originalName meta),
                               content_type = m_mimetype meta,
                               body = f_buffer fileData\<rparr>, s)))"

text \<open>
  The handler of \<^verbatim>\<open>GET /api/preview/:code\<close>, with the same \<^verbatim>\<open>try\<close> and
  \<^verbatim>\<open>catch\<close>; it is reached through the route \<open>get_preview\<close> below.
\<close>

definition preview :: "store \<Rightarrow> string \<Rightarrow> int \<Rightarrow> (error + payload) \<times> store" where
  "preview s code now =
     (case findByCode (fileMetadata s) code of
        None \<Rightarrow> (Inl FileNotFound, s)
      | Some (fileId, meta) \<Rightarrow>
          if fileId = [] then (Inl FileNotFound, s)
          else if \<not> m_previewable meta then (Inl CannotPreview, s)
          else (case map_of (fileStorage s) fileId of
                  None \<Rightarrow> (Inl FileDataNotFound, s)
                | Some fileData \<Rightarrow>
                    if now > m_expirationTime meta then (Inl FileExpired, evict fileId s)
                    else if \<not> valid_header_value (header ''inline'' (m_originalName meta))
                      then (Inl PreviewFailed, s)
                    else if \<not> valid_header_value (lit (m_mimetype meta))
                      then (Inl PreviewFailed, s)
                    else (Inr \<lparr>content_disposition = header ''inline'' (m_originalName meta),
                               content_type = m_mimetype meta,
                               body = f_buffer fileData\<rparr>, s)))"

text \<open>
  The two routes. The path parameter \<^verbatim>\<open>:code\<close> matches one or more characters, so a
  request with an empty code matches no route and never reaches the handler; every other
  code is handed to the handler as it is.
\<close>

definition get_download :: "store \<Rightarrow> string \<Rightarrow> int \<Rightarrow> (error + payload) \<times> store" where
  "get_download s code now =
     (if code = [] then (Inl NoRouteMatched, s) else download s code now)"

definition get_preview :: "store \<Rightarrow> string \<Rightarrow> int \<Rightarrow> (error + payload) \<times> store" where
  "get_preview s code now =
     (if code = [] then (Inl NoRouteMatched, s) else preview s code now)"

subsection \<open>Runs of the server\<close>

text \<open>
  One event of the server: a request to one of the three routes, or a timer firing. A run
  handles the events one after the other, as the single-threaded event loop does. Any id may
  fire at any time here, which covers every schedule of the timers that upload registers.
\<close>

datatype event =
    Upload string string int "part option"
  | Download string int
  | Preview string int
  | Timer string

fun step :: "store \<Rightarrow> event \<Rightarrow> store" where
  "step s (Upload fileId rendered now p) = snd (upload s fileId rendered now p)"
| "step s (Download code now) = snd (get_download s code now)"
| "step s (Preview code now) = snd (get_preview s code now)"
| "step s (Timer fileId) = cleanup fileId s"

definition run :: "event list \<Rightarrow> store \<Rightarrow> store" where
  "run evs s = foldl step s evs"

text \<open>The short codes of the live objects, in insertion order.\<close>

definition live_codes :: "store \<Rightarrow> string list" where
  "live_codes s = map (\<lambda>(id, meta). m_shortCode meta) (fileMetadata s)"

text \<open>
  The handler calls the generator only when the middleware let the request through with a
  file.
\<close>

definition reaches_generator :: "part option \<Rightarrow> bool" where
  "reaches_generator p = (case upload_single p of Inr (Some f) \<Rightarrow> True | _ \<Rightarrow> False)"

text \<open>The codes that the uploads of a run generate.\<close>

fun generated_codes :: "event list \<Rightarrow> string list" where
  "generated_codes [] = []"
| "generated_codes (Upload fileId rendered now p # evs) =
     (if reaches_generator p then generateShortCode rendered # generated_codes evs
      else generated_codes evs)"
| "generated_codes (_ # evs) = generated_codes evs"

subsection \<open>Invariants of the store\<close>

text \<open>The two maps hold the same ids, in the same order.\<close>

definition keys_agree :: "store \<Rightarrow> bool" where
  "keys_agree s \<longleftrightarrow> map fst (fileStorage s) = map fst (fileMetadata s)"


definition all_previewable :: "store \<Rightarrow> bool" where
  "all_previewable s \<longleftrightarrow>
     list_all (\<lambda>(id, meta). m_previewable meta \<and> m_previewUrl meta \<noteq> None) (fileMetadata s)"

subsection \<open>The specification's reading of previewable types\<close>

text \<open>
  The top-level class of a media type is what stands before its first slash; a string
  without a slash has none.
\<close>

definition top_level_class :: "string \<Rightarrow> string option" where
  "top_level_class mimetype =
     (if CHR ''/'' \<in> set mimetype then Some (takeWhile (\<lambda>c. c \<noteq> CHR ''/'') mimetype) else None)"

text \<open>
  The specification's sentence: previewable is any type whose top-level class is image,
  video, audio or text, or exactly \<open>application/pdf\<close>.
\<close>

definition previewable_type :: "string \<Rightarrow> bool" where
  "previewable_type mimetype \<longleftrightarrow>
     top_level_class mimetype \<in> {Some ''image'', Some ''video'', Some ''audio'', Some ''text''} \<or>
     mimetype = ''application/pdf''"

text \<open>The digits of a base-36 rendering, and the alphabet of a well-formed code.\<close>

definition base36_digits :: string where
  "base36_digits = ''0123456789abcdefghijklmnopqrstuvwxyz''"

definition upper_alnum :: string where
  "upper_alnum = ''0123456789ABCDEFGHIJKLMNOPQRSTUVWXYZ''"

subsection \<open>Concrete requests and stores\<close>

definition hello :: "byte list" where
  "hello = [104, 101, 108, 108, 111]"

definition txt_part :: part where
  "txt_part = \<lparr>p_filename = lit ''a.txt'', p_mimetype = ''text/plain'', p_data = hello\<rparr>"

definition pdf_part :: part where
  "pdf_part = \<lparr>p_filename = lit ''b.pdf'', p_mimetype = ''application/pdf'',
                p_data = [37, 80, 68, 70]\<rparr>"

definition zip_part :: part where
  "zip_part = \<lparr>p_filename = lit ''a.zip'', p_mimetype = ''application/zip'', p_data = [80, 75]\<rparr>"

definition upper_png_part :: part where
  "upper_png_part = \<lparr>p_filename = lit ''a.png'', p_mimetype = ''IMAGE/PNG'', p_data = [137, 80]\<rparr>"

definition big_zip :: part where
  "big_zip = \<lparr>p_filename = lit ''big.zip'', p_mimetype = ''application/zip'',
               p_data = replicate 10485761 0\<rparr>"

definition big_png :: part where
  "big_png = \<lparr>p_filename = lit ''big.png'', p_mimetype = ''image/png'',
               p_data = replicate 10485761 0\<rparr>"

text \<open>What the upload of \<open>txt_part\<close> at time 1000 with id \<open>id-1\<close> stores and answers.\<close>

definition txt_file :: file_entry where
  "txt_file = \<lparr>f_buffer = hello, f_mimetype = ''text/plain'',
                f_originalname = lit ''a.txt'', f_size = 5\<rparr>"

definition txt_meta :: metadata where
  "txt_meta =
     \<lparr>m_fileId = ''id-1'', m_shortCode = ''K3F9X2'', m_originalName = lit ''a.txt'', m_size = 5,
      m_mimetype = ''text/plain'', m_uploadTime = 1000, m_expirationTime = 10801000,
      m_previewable = True, m_downloadUrl = ''/api/download/K3F9X2'',
      m_previewUrl = Some ''/api/preview/K3F9X2''\<rparr>"

definition txt_response :: upload_response where
  "txt_response =
     \<lparr>r_shortCode = ''K3F9X2'', r_downloadUrl = ''/api/download/K3F9X2'',
      r_previewUrl = Some ''/api/preview/K3F9X2'', r_filename = lit ''a.txt'', r_size = 5,
      r_previewable = True, r_expiresAt = 10801000\<rparr>"

definition txt_store :: store where
  "txt_store = \<lparr>fileStorage = [(''id-1'', txt_file)], fileMetadata = [(''id-1'', txt_meta)]\<rparr>"

definition one_upload :: "event list" where
  "one_upload = [Upload ''id-1'' ''0.k3f9x2abc'' 1000 (Some txt_part)]"

text \<open>Two uploads whose random numbers agree in their first six base-36 digits.\<close>

definition two_uploads :: "event list" where
  "two_uploads =
     [Upload ''id-1'' ''0.k3f9x2abc'' 1000 (Some txt_part),
      Upload ''id-2'' ''0.k3f9x2zzz'' 2000 (Some pdf_part)]"

text \<open>Two uploads whose random numbers differ there.\<close>

definition distinct_uploads :: "event list" where
  "distinct_uploads =
     [Upload ''id-1'' ''0.k3f9x2abc'' 1000 (Some txt_part),
      Upload ''id-2'' ''0.7q1m4zp0x'' 2000 (Some pdf_part)]"

definition mixed_run :: "event list" where
  "mixed_run =
     [Upload ''id-1'' ''0.k3f9x2abc'' 1000 (Some txt_part),
      Upload ''id-2'' ''0.7q1m4zp0x'' 2000 (Some pdf_part),
      Upload ''id-3'' ''0.zzzzzzzzz'' 2500 (Some zip_part),
      Download ''K3F9X2'' 10801001,
      Preview ''7Q1M4Z'' 3000,
      Timer ''id-2'',
      Timer ''id-2'']"

text \<open>
  A store holding an object that is not previewable. No upload produces it; it is the
  input on which the handler of the preview route refuses.
\<close>

text \<open>
  A part whose file name holds a line feed, and a part whose file name starts with two
  code units above 0xff.
\<close>

definition newline_part :: part where
  "newline_part = \<lparr>p_filename = lit ''a'' @ [0x0a] @ lit ''b.txt'', p_mimetype = ''text/plain'',
                    p_data = hello\<rparr>"

definition wide_part :: part where
  "wide_part = \<lparr>p_filename = [0x4e2d, 0x6587] @ lit ''.txt'', p_mimetype = ''text/plain'',
                 p_data = hello\<rparr>"

definition zip_meta :: metadata where
  "zip_meta =
     \<lparr>m_fileId = ''id-9'', m_shortCode = ''ZZZZZZ'', m_originalName = lit ''a.zip'', m_size = 2,
      m_mimetype = ''application/zip'', m_uploadTime = 0, m_expirationTime = 10800000,
      m_previewable = False, m_downloadUrl = ''/api/download/ZZZZZZ'', m_previewUrl = None\<rparr>"

definition zip_store :: store where
  "zip_store =
     \<lparr>fileStorage = [(''id-9'', \<lparr>f_buffer = [80, 75], f_mimetype = ''application/zip'',
                                 f_originalname = lit ''a.zip'', f_size = 2\<rparr>)],
      fileMetadata = [(''id-9'', zip_meta)]\<rparr>"

section \<open>Properties\<close>

subsection \<open>Evaluating the definitions\<close>

lemmas eval_defs =
  run_def upload_def upload_single_def upload_handler_def fileFilter_def allowedTypes_def
  fileSize_def ttl_def generateShortCode_def substring_def toUpperCase_def toUpperCase_char_def
  upper_table_def isPreviewable_def startsWith_def empty_store_def download_def preview_def
  findByCode_def evict_def cleanup_def live_codes_def header_def reaches_generator_def Let_def
  lit_def header_char_def valid_header_value_def get_download_def get_preview_def

lemmas example_defs =
  hello_def txt_part_def pdf_part_def zip_part_def upper_png_part_def big_zip_def big_png_def
  txt_file_def txt_meta_def txt_response_def txt_store_def one_upload_def two_uploads_def
  distinct_uploads_def mixed_run_def zip_meta_def zip_store_def newline_part_def wide_part_def

subsection \<open>The code generator\<close>

lemma generateShortCode_length:
  "length (generateShortCode rendered) = min 6 (length rendered - 2)"
  by (simp add: generateShortCode_def substring_def toUpperCase_def)

lemma toUpperCase_char_base36:
  "c \<in> set base36_digits \<Longrightarrow> toUpperCase_char c \<in> set upper_alnum"
  by (auto simp: base36_digits_def upper_alnum_def toUpperCase_char_def upper_table_def)

lemma generateShortCode_well_formed:
  assumes "8 \<le> length rendered" and "set (drop 2 rendered) \<subseteq> set base36_digits"
  shows "length (generateShortCode rendered) = 6 \<and>
         set (generateShortCode rendered) \<subseteq> set upper_alnum"
proof -
  have "set (take 6 (drop 2 rendered)) \<subseteq> set base36_digits"
    using assms(2) set_take_subset [of 6 "drop 2 rendered"] by blast
  then have "set (generateShortCode rendered) \<subseteq> set upper_alnum"
    by (auto simp: generateShortCode_def substring_def toUpperCase_def toUpperCase_char_base36)
  with assms(1) show ?thesis by (simp add: generateShortCode_length)
qed

subsection \<open>Previewable types\<close>

lemma allowed_isPreviewable: "m \<in> set allowedTypes \<Longrightarrow> isPreviewable m"
  by (auto simp: allowedTypes_def isPreviewable_def startsWith_def)

lemma startsWith_class:
  assumes "CHR ''/'' \<notin> set cls"
  shows "startsWith m (cls @ ''/'') \<longleftrightarrow> top_level_class m = Some cls"
proof
  assume "startsWith m (cls @ ''/'')"
  then have "take (length cls + 1) m = cls @ ''/''" by (simp add: startsWith_def)
  then have "m = cls @ ''/'' @ drop (length cls + 1) m"
    by (metis append_take_drop_id append.assoc)
  then obtain rest where m: "m = cls @ CHR ''/'' # rest" by auto
  from assms have "\<forall>x\<in>set cls. x \<noteq> CHR ''/''" by blast
  with m show "top_level_class m = Some cls"
    by (simp add: top_level_class_def)
next
  assume a: "top_level_class m = Some cls"
  then have in_m: "CHR ''/'' \<in> set m" and tw: "takeWhile (\<lambda>c. c \<noteq> CHR ''/'') m = cls"
    by (auto simp: top_level_class_def split: if_splits)
  from in_m have "dropWhile (\<lambda>c. c \<noteq> CHR ''/'') m \<noteq> []" by auto
  then obtain rest where dw: "dropWhile (\<lambda>c. c \<noteq> CHR ''/'') m = CHR ''/'' # rest"
    using hd_dropWhile [of "\<lambda>c. c \<noteq> CHR ''/''" m] by (cases "dropWhile (\<lambda>c. c \<noteq> CHR ''/'') m") auto
  have "m = takeWhile (\<lambda>c. c \<noteq> CHR ''/'') m @ dropWhile (\<lambda>c. c \<noteq> CHR ''/'') m" by simp
  with tw dw have "m = cls @ CHR ''/'' # rest" by simp
  then show "startsWith m (cls @ ''/'')" by (simp add: startsWith_def)
qed

lemma isPreviewable_previewable_type: "isPreviewable m \<longleftrightarrow> previewable_type m"
proof -
  have "startsWith m ''image/'' \<longleftrightarrow> top_level_class m = Some ''image''"
    using startsWith_class [of "''image''" m] by simp
  moreover have "startsWith m ''video/'' \<longleftrightarrow> top_level_class m = Some ''video''"
    using startsWith_class [of "''video''" m] by simp
  moreover have "startsWith m ''audio/'' \<longleftrightarrow> top_level_class m = Some ''audio''"
    using startsWith_class [of "''audio''" m] by simp
  moreover have "startsWith m ''text/'' \<longleftrightarrow> top_level_class m = Some ''text''"
    using startsWith_class [of "''text''" m] by simp
  ultimately show ?thesis by (auto simp: isPreviewable_def previewable_type_def)
qed

subsection \<open>Header values\<close>

lemma valid_header_value_allowed: "m \<in> set allowedTypes \<Longrightarrow> valid_header_value (lit m)"
  by (auto simp: allowedTypes_def valid_header_value_def header_char_def lit_def)

lemma valid_header_value_attachment:
  "valid_header_value (header ''attachment'' name) \<longleftrightarrow> valid_header_value name"
  by (simp add: header_def valid_header_value_def header_char_def lit_def)

lemma valid_header_value_inline:
  "valid_header_value (header ''inline'' name) \<longleftrightarrow> valid_header_value name"
  by (simp add: header_def valid_header_value_def header_char_def lit_def)

subsection \<open>What each event does to the store\<close>

lemma upload_store_cases:
  "snd (upload s fileId rendered now p) = s \<or>
   (\<exists>f m. reaches_generator p \<and> snd (upload s fileId rendered now p) =
        \<lparr>fileStorage = AList.update fileId f (fileStorage s),
         fileMetadata = AList.update fileId m (fileMetadata s)\<rparr> \<and>
      m_shortCode m = generateShortCode rendered \<and>
      m_previewable m \<and> m_previewUrl m \<noteq> None)"
  by (cases s)
     (auto simp: upload_def upload_single_def upload_handler_def Let_def fileFilter_def
           reaches_generator_def allowed_isPreviewable split: option.splits)

lemma download_store_cases:
  "snd (download s code now) = s \<or>
   (\<exists>fileId. fst (download s code now) = Inl FileExpired \<and>
      snd (download s code now) = evict fileId s)"
  by (auto simp: download_def split: option.splits)

lemma preview_store_cases:
  "snd (preview s code now) = s \<or>
   (\<exists>fileId. fst (preview s code now) = Inl FileExpired \<and>
      snd (preview s code now) = evict fileId s)"
  by (auto simp: preview_def split: option.splits)

lemma cleanup_cases: "cleanup fileId s = s \<or> cleanup fileId s = evict fileId s"
  by (simp add: cleanup_def evict_def)

lemma step_cases:
  "step s ev = s \<or> (\<exists>fileId. step s ev = evict fileId s) \<or>
   (\<exists>fileId rendered now p f m. ev = Upload fileId rendered now p \<and>
      reaches_generator p \<and>
      step s ev = \<lparr>fileStorage = AList.update fileId f (fileStorage s),
                   fileMetadata = AList.update fileId m (fileMetadata s)\<rparr> \<and>
      m_shortCode m = generateShortCode rendered \<and>
      m_previewable m \<and> m_previewUrl m \<noteq> None)"
proof (cases ev)
  case (Upload fileId rendered now p)
  then show ?thesis using upload_store_cases [of s fileId rendered now p] by auto
next
  case (Download code now)
  then show ?thesis using download_store_cases [of s code now] by (auto simp: get_download_def)
next
  case (Preview code now)
  then show ?thesis using preview_store_cases [of s code now] by (auto simp: get_preview_def)
next
  case (Timer fileId)
  then show ?thesis using cleanup_cases [of fileId s] by auto
qed

lemma upload_success:
  assumes "upload s fileId rendered now (Some pt) = (Inr resp, s')"
  shows "map_of (fileStorage s') fileId =
           Some \<lparr>f_buffer = p_data pt, f_mimetype = p_mimetype pt,
                 f_originalname = p_filename pt, f_size = length (p_data pt)\<rparr>"
    and "\<exists>meta. fileMetadata s' = AList.update fileId meta (fileMetadata s) \<and>
           m_shortCode meta = generateShortCode rendered \<and>
           m_originalName meta = p_filename pt \<and>
           m_mimetype meta = p_mimetype pt \<and>
           m_expirationTime meta = now + ttl \<and>
           m_previewable meta = isPreviewable (p_mimetype pt)"
    and "r_shortCode resp = generateShortCode rendered"
    and "r_expiresAt resp = now + ttl"
    and "r_previewable resp = isPreviewable (p_mimetype pt)"
    and "p_mimetype pt \<in> set allowedTypes"
  using assms
  by (auto simp: upload_def upload_single_def upload_handler_def Let_def update_conv'
           fileFilter_def split: if_splits)

lemma findByCode_update_fresh:
  "code \<notin> set (map (\<lambda>(id, meta). m_shortCode meta) al) \<Longrightarrow> m_shortCode meta = code \<Longrightarrow>
   findByCode (AList.update fileId meta al) code = Some (fileId, meta)"
  by (induction al) (auto simp: findByCode_def)

lemma findByCode_mem: "findByCode al code = Some (fileId, meta) \<Longrightarrow> (fileId, meta) \<in> set al \<and> m_shortCode meta = code"
  by (induction al) (auto simp: findByCode_def split: if_splits)

lemma findByCode_None: "findByCode al code = None \<longleftrightarrow> code \<notin> set (map (\<lambda>(id, meta). m_shortCode meta) al)"
  by (induction al) (auto simp: findByCode_def split: if_splits)

subsection \<open>Invariants of every run\<close>

lemma keys_agree_evict: "keys_agree s \<Longrightarrow> keys_agree (evict fileId s)"
  by (simp add: keys_agree_def evict_def delete_keys)

lemma keys_agree_update:
  "keys_agree s \<Longrightarrow>
   keys_agree \<lparr>fileStorage = AList.update fileId f (fileStorage s),
               fileMetadata = AList.update fileId m (fileMetadata s)\<rparr>"
  by (simp add: keys_agree_def update_keys)

lemma keys_agree_step: "keys_agree s \<Longrightarrow> keys_agree (step s ev)"
  using step_cases [of s ev] by (auto simp: keys_agree_evict keys_agree_update)

lemma keys_agree_run: "keys_agree s \<Longrightarrow> keys_agree (run evs s)"
  unfolding run_def by (induction evs arbitrary: s) (simp_all add: keys_agree_step)

lemma keys_agree_empty: "keys_agree empty_store"
  by (simp add: keys_agree_def empty_store_def)

lemma list_all_delete: "list_all P al \<Longrightarrow> list_all P (AList.delete k al)"
  by (simp add: AList.delete_eq list_all_iff)

lemma list_all_update: "list_all P al \<Longrightarrow> P (k, v) \<Longrightarrow> list_all P (AList.update k v al)"
  by (induction al) auto

lemma all_previewable_step: "all_previewable s \<Longrightarrow> all_previewable (step s ev)"
  using step_cases [of s ev]
  by (auto simp: all_previewable_def evict_def list_all_delete list_all_update)

lemma all_previewable_run: "all_previewable s \<Longrightarrow> all_previewable (run evs s)"
  unfolding run_def by (induction evs arbitrary: s) (simp_all add: all_previewable_step)

lemma all_previewable_empty: "all_previewable empty_store"
  by (simp add: all_previewable_def empty_store_def)





subsection \<open>The live short codes\<close>

lemma codes_delete_subset:
  "set (map g (AList.delete k al)) \<subseteq> set (map g al)"
  by (auto simp: AList.delete_eq)

lemma distinct_codes_delete:
  "distinct (map g al) \<Longrightarrow> distinct (map g (AList.delete k al))"
  by (simp add: AList.delete_eq distinct_map_filter)

lemma codes_update_subset:
  "set (map g (AList.update k v al)) \<subseteq> insert (g (k, v)) (set (map g al))"
  by (induction al) auto

lemma distinct_codes_update:
  "distinct (map g al) \<Longrightarrow> g (k, v) \<notin> set (map g al) \<Longrightarrow> distinct (map g (AList.update k v al))"
proof (induction al)
  case Nil
  then show ?case by simp
next
  case (Cons a al)
  then show ?case using codes_update_subset [of g k v al] by auto
qed

lemma generated_codes_Cons:
  "generated_codes (ev # evs) = generated_codes [ev] @ generated_codes evs"
  by (cases ev) simp_all

lemma step_codes_subset:
  "set (live_codes (step s ev)) \<subseteq> set (live_codes s) \<union> set (generated_codes [ev])"
  using step_cases [of s ev]
proof (elim disjE exE conjE)
  assume "step s ev = s"
  then show ?thesis by auto
next
  fix fileId assume "step s ev = evict fileId s"
  then show ?thesis
    using codes_delete_subset [of "\<lambda>(id, meta). m_shortCode meta" fileId "fileMetadata s"]
    by (auto simp: live_codes_def evict_def)
next
  fix fileId rendered now p f m
  assume ev: "ev = Upload fileId rendered now p"
    and rg: "reaches_generator p"
    and st: "step s ev = \<lparr>fileStorage = AList.update fileId f (fileStorage s),
                   fileMetadata = AList.update fileId m (fileMetadata s)\<rparr>"
    and m: "m_shortCode m = generateShortCode rendered"
  have "set (live_codes (step s ev)) \<subseteq> insert (m_shortCode m) (set (live_codes s))"
    using codes_update_subset [of "\<lambda>(id, meta). m_shortCode meta" fileId m "fileMetadata s"] st
    by (simp add: live_codes_def)
  with ev rg m show ?thesis by auto
qed

lemma step_codes_distinct:
  assumes "distinct (live_codes s)" and "set (live_codes s) \<inter> set (generated_codes [ev]) = {}"
  shows "distinct (live_codes (step s ev))"
  using step_cases [of s ev]
proof (elim disjE exE conjE)
  assume "step s ev = s"
  with assms show ?thesis by simp
next
  fix fileId assume "step s ev = evict fileId s"
  with assms(1) show ?thesis by (simp add: live_codes_def evict_def distinct_codes_delete)
next
  fix fileId rendered now p f m
  assume ev: "ev = Upload fileId rendered now p"
    and rg: "reaches_generator p"
    and st: "step s ev = \<lparr>fileStorage = AList.update fileId f (fileStorage s),
                   fileMetadata = AList.update fileId m (fileMetadata s)\<rparr>"
    and m: "m_shortCode m = generateShortCode rendered"
  from assms(2) ev rg m have "m_shortCode m \<notin> set (live_codes s)" by simp
  then have "distinct (map (\<lambda>(id, meta). m_shortCode meta) (AList.update fileId m (fileMetadata s)))"
    using assms(1) by (intro distinct_codes_update) (simp_all add: live_codes_def)
  with st show ?thesis by (simp add: live_codes_def)
qed

lemma run_codes_distinct:
  "distinct (live_codes s) \<Longrightarrow> distinct (generated_codes evs) \<Longrightarrow>
   set (live_codes s) \<inter> set (generated_codes evs) = {} \<Longrightarrow>
   distinct (live_codes (run evs s))"
proof (induction evs arbitrary: s)
  case Nil
  then show ?case by (simp add: run_def)
next
  case (Cons ev evs)
  let ?g = "generated_codes [ev]"
  have split: "generated_codes (ev # evs) = ?g @ generated_codes evs"
    by (rule generated_codes_Cons)
  from Cons.prems split have d: "distinct (generated_codes evs)"
    and disj1: "set (live_codes s) \<inter> set ?g = {}"
    and disj2: "set (live_codes s) \<inter> set (generated_codes evs) = {}"
    and disj3: "set ?g \<inter> set (generated_codes evs) = {}"
    by auto
  have "distinct (live_codes (step s ev))"
    using Cons.prems(1) disj1 by (rule step_codes_distinct)
  moreover have "set (live_codes (step s ev)) \<inter> set (generated_codes evs) = {}"
    using step_codes_subset [of s ev] disj2 disj3 by blast
  ultimately have "distinct (live_codes (run evs (step s ev)))"
    using d by (intro Cons.IH)
  then show ?case by (simp add: run_def)
qed

section \<open>The claims\<close>

subsection \<open>C1: short codes of live objects\<close>

text \<open>
  C1, as amended. The upload handler stores the code that the generator returned: it does
  not look at the codes of the live objects and does not generate again. So the live
  objects of a run carry pairwise different short codes whenever the codes generated for
  the uploads of that run are pairwise different, and the code in the response is always
  the generated one.
\<close>

theorem live_codes_distinct_if_generated_distinct:
  "(distinct (generated_codes evs) \<longrightarrow> distinct (live_codes (run evs empty_store))) \<and>
   (fst (upload s fileId rendered now p) = Inr resp \<longrightarrow>
      r_shortCode resp = generateShortCode rendered)"
proof -
  have "distinct (generated_codes evs) \<Longrightarrow> distinct (live_codes (run evs empty_store))"
    by (rule run_codes_distinct) (simp_all add: live_codes_def empty_store_def)
  moreover have "fst (upload s fileId rendered now p) = Inr resp \<Longrightarrow>
      r_shortCode resp = generateShortCode rendered"
    by (auto simp: upload_def upload_single_def upload_handler_def Let_def
             split: option.splits if_splits)
  ultimately show ?thesis by blast
qed

theorem live_codes_distinct_witness:
  "distinct (generated_codes distinct_uploads) \<and>
   live_codes (run distinct_uploads empty_store) = [''K3F9X2'', ''7Q1M4Z''] \<and>
   distinct (live_codes (run distinct_uploads empty_store)) \<and>
   fst (upload empty_store ''id-1'' ''0.k3f9x2abc'' 1000 (Some txt_part)) = Inr txt_response \<and>
   r_shortCode txt_response = generateShortCode ''0.k3f9x2abc''"
  using live_codes_distinct_if_generated_distinct
          [of distinct_uploads empty_store "''id-1''" "''0.k3f9x2abc''" 1000 "Some txt_part"
              txt_response]
  by (simp add: example_defs eval_defs)

text \<open>
  The claim as written fails: two uploads whose random numbers agree in the first six
  digits after the point are both stored, under the same short code.
\<close>

theorem live_codes_shared_counterexample:
  "live_codes (run two_uploads empty_store) = [''K3F9X2'', ''K3F9X2''] \<and>
   map fst (fileMetadata (run two_uploads empty_store)) = [''id-1'', ''id-2''] \<and>
   \<not> distinct (live_codes (run two_uploads empty_store))"
  by (simp add: example_defs eval_defs)

subsection \<open>C2: reading an expired object\<close>




subsection \<open>C3: download after upload\<close>

text \<open>
  C3, as amended. For every successful upload whose returned short code is not empty and
  is carried by no object that was live before the upload, and whose file name consists of
  code units that a response header may carry (a tab, 0x20 to 0x7e, 0x80 to 0xff), a
  download with the returned code at any time up to the expiration time returns the
  uploaded bytes, with the uploaded content type and the original file name in the
  attachment header, and leaves the store as it is. File ids are UUID strings, hence not
  empty.
\<close>

theorem download_after_upload:
  assumes "upload s fileId rendered now (Some pt) = (Inr resp, s')"
    and "r_shortCode resp \<notin> set (live_codes s)"
    and "r_shortCode resp \<noteq> []"
    and "fileId \<noteq> []"
    and "valid_header_value (p_filename pt)"
    and "now' \<le> r_expiresAt resp"
  shows "get_download s' (r_shortCode resp) now' =
           (Inr \<lparr>content_disposition = header ''attachment'' (p_filename pt),
                 content_type = p_mimetype pt,
                 body = p_data pt\<rparr>, s')"
proof -
  note u = upload_success [OF assms(1)]
  from u(2) obtain meta where meta: "fileMetadata s' = AList.update fileId meta (fileMetadata s)"
    "m_shortCode meta = generateShortCode rendered" "m_originalName meta = p_filename pt"
    "m_mimetype meta = p_mimetype pt" "m_expirationTime meta = now + ttl"
    by blast
  have found: "findByCode (fileMetadata s') (r_shortCode resp) = Some (fileId, meta)"
    using findByCode_update_fresh [of "r_shortCode resp" "fileMetadata s" meta fileId]
      assms(2) meta(1,2) u(3) by (simp add: live_codes_def)
  have name: "valid_header_value (header ''attachment'' (m_originalName meta))"
    using assms(5) meta(3) by (simp add: valid_header_value_attachment)
  have type: "valid_header_value (lit (m_mimetype meta))"
    using u(6) meta(4) by (simp add: valid_header_value_allowed)
  have "download s' (r_shortCode resp) now' =
           (Inr \<lparr>content_disposition = header ''attachment'' (p_filename pt),
                 content_type = p_mimetype pt,
                 body = p_data pt\<rparr>, s')"
    using found name type u(1,4) meta(3,4,5) assms(4,6) by (simp add: download_def)
  with assms(3) show ?thesis by (simp add: get_download_def)
qed

theorem download_after_upload_witness:
  "upload empty_store ''id-1'' ''0.k3f9x2abc'' 1000 (Some txt_part) = (Inr txt_response, txt_store) \<and>
   r_shortCode txt_response = ''K3F9X2'' \<and>
   r_shortCode txt_response \<notin> set (live_codes empty_store) \<and>
   valid_header_value (p_filename txt_part) \<and>
   1000 \<le> r_expiresAt txt_response \<and>
   get_download txt_store ''K3F9X2'' 1000 =
     (Inr \<lparr>content_disposition = lit ''attachment; filename='' @ [0x22] @ lit ''a.txt'' @ [0x22],
           content_type = ''text/plain'', body = hello\<rparr>, txt_store)"
proof -
  have u: "upload empty_store ''id-1'' ''0.k3f9x2abc'' 1000 (Some txt_part) =
             (Inr txt_response, txt_store)"
    by (simp add: example_defs eval_defs)
  have code: "r_shortCode txt_response = ''K3F9X2''" by (simp add: txt_response_def)
  have fresh: "r_shortCode txt_response \<notin> set (live_codes empty_store)"
    by (simp add: live_codes_def empty_store_def)
  have nonempty: "r_shortCode txt_response \<noteq> []" by (simp add: txt_response_def)
  have ne: "''id-1'' \<noteq> []" by simp
  have name: "valid_header_value (p_filename txt_part)"
    by (simp add: txt_part_def valid_header_value_def header_char_def lit_def)
  have t: "1000 \<le> r_expiresAt txt_response" by (simp add: txt_response_def)
  have "get_download txt_store (r_shortCode txt_response) 1000 =
          (Inr \<lparr>content_disposition = header ''attachment'' (p_filename txt_part),
                content_type = p_mimetype txt_part, body = p_data txt_part\<rparr>, txt_store)"
    by (rule download_after_upload [OF u fresh nonempty ne name t])
  then have "get_download txt_store ''K3F9X2'' 1000 =
     (Inr \<lparr>content_disposition = lit ''attachment; filename='' @ [0x22] @ lit ''a.txt'' @ [0x22],
           content_type = ''text/plain'', body = hello\<rparr>, txt_store)"
    by (simp add: txt_response_def txt_part_def header_def lit_def)
  with u code fresh name t show ?thesis by simp
qed

text \<open>
  The claim as written fails in three ways. Where the returned code is already live, the
  download resolves the code to the older object and returns its bytes. Where the stored
  file name holds a line feed or a code unit above 0xff, setting the header throws and the
  handler answers 500. Where the generated code is empty, the request matches no route.
\<close>

theorem download_after_upload_counterexample:
  "map_sum id r_shortCode
     (fst (upload txt_store ''id-2'' ''0.k3f9x2zzz'' 2000 (Some pdf_part))) = Inr ''K3F9X2'' \<and>
   map_sum id body
     (fst (get_download (snd (upload txt_store ''id-2'' ''0.k3f9x2zzz'' 2000 (Some pdf_part)))
             ''K3F9X2'' 2000)) = Inr (p_data txt_part) \<and>
   p_data txt_part \<noteq> p_data pdf_part \<and>
   map_sum id r_shortCode
     (fst (upload empty_store ''id-1'' ''0.k3f9x2abc'' 1000 (Some newline_part))) = Inr ''K3F9X2'' \<and>
   fst (get_download (snd (upload empty_store ''id-1'' ''0.k3f9x2abc'' 1000 (Some newline_part)))
          ''K3F9X2'' 1000) = Inl DownloadFailed \<and>
   map_sum id r_shortCode
     (fst (upload empty_store ''id-1'' ''0.k3f9x2abc'' 1000 (Some wide_part))) = Inr ''K3F9X2'' \<and>
   fst (get_download (snd (upload empty_store ''id-1'' ''0.k3f9x2abc'' 1000 (Some wide_part)))
          ''K3F9X2'' 1000) = Inl DownloadFailed \<and>
   status DownloadFailed = 500 \<and>
   map_sum id r_shortCode
     (fst (upload empty_store ''id-1'' ''0'' 1000 (Some txt_part))) = Inr [] \<and>
   fst (get_download (snd (upload empty_store ''id-1'' ''0'' 1000 (Some txt_part))) [] 1000) =
     Inl NoRouteMatched"
  by (simp add: example_defs eval_defs)

subsection \<open>C4: the previewable flag\<close>

text \<open>
  C4. The preview test of the source holds for exactly the types whose top-level class is
  image, video, audio or text, and for \<open>application/pdf\<close>. Every successful upload stores,
  under the issued code, a previewable flag equal to that test on the content type, and
  returns the same flag. Preview with a code that resolves to an object whose flag is false
  fails with \<open>CannotPreview\<close> (HTTP 403) and leaves the store as it is.
\<close>

theorem previewable_flag_and_refusal:
  "(isPreviewable mimetype \<longleftrightarrow> previewable_type mimetype) \<and>
   (upload s fileId rendered now (Some pt) = (Inr resp, s') \<longrightarrow>
      map_option m_shortCode (map_of (fileMetadata s') fileId) = Some (r_shortCode resp) \<and>
      map_option m_previewable (map_of (fileMetadata s') fileId) =
        Some (previewable_type (p_mimetype pt)) \<and>
      r_previewable resp = previewable_type (p_mimetype pt)) \<and>
   (findByCode (fileMetadata t) code = Some (foundId, meta) \<and> foundId \<noteq> [] \<and>
      \<not> m_previewable meta \<longrightarrow>
      preview t code at = (Inl CannotPreview, t)) \<and>
   status CannotPreview = 403"
proof -
  have "upload s fileId rendered now (Some pt) = (Inr resp, s') \<Longrightarrow>
      map_option m_shortCode (map_of (fileMetadata s') fileId) = Some (r_shortCode resp) \<and>
      map_option m_previewable (map_of (fileMetadata s') fileId) =
        Some (previewable_type (p_mimetype pt)) \<and>
      r_previewable resp = previewable_type (p_mimetype pt)"
    using upload_success(2,3,5) [of s fileId rendered now pt resp s']
    by (auto simp: update_conv' isPreviewable_previewable_type)
  moreover have "findByCode (fileMetadata t) code = Some (foundId, meta) \<Longrightarrow>
      foundId \<noteq> [] \<Longrightarrow> \<not> m_previewable meta \<Longrightarrow>
      preview t code at = (Inl CannotPreview, t)"
    by (simp add: preview_def)
  ultimately show ?thesis
    using isPreviewable_previewable_type [of mimetype] by auto
qed

theorem previewable_flag_and_refusal_witness:
  "isPreviewable ''image/svg+xml'' \<and> previewable_type ''image/svg+xml'' \<and>
   \<not> isPreviewable ''application/zip'' \<and> \<not> previewable_type ''application/zip'' \<and>
   upload empty_store ''id-1'' ''0.k3f9x2abc'' 1000 (Some txt_part) = (Inr txt_response, txt_store) \<and>
   map_option m_previewable (map_of (fileMetadata txt_store) ''id-1'') = Some True \<and>
   previewable_type (p_mimetype txt_part) \<and>
   findByCode (fileMetadata zip_store) ''ZZZZZZ'' = Some (''id-9'', zip_meta) \<and>
   ''id-9'' \<noteq> [] \<and> \<not> m_previewable zip_meta \<and>
   preview zip_store ''ZZZZZZ'' 5 = (Inl CannotPreview, zip_store)"
proof -
  have u: "upload empty_store ''id-1'' ''0.k3f9x2abc'' 1000 (Some txt_part) =
             (Inr txt_response, txt_store)"
    by (simp add: example_defs eval_defs)
  have f: "findByCode (fileMetadata zip_store) ''ZZZZZZ'' = Some (''id-9'', zip_meta)"
    by (simp add: zip_store_def zip_meta_def findByCode_def)
  have np: "\<not> m_previewable zip_meta" by (simp add: zip_meta_def)
  have a: "isPreviewable ''image/svg+xml''" and b: "\<not> isPreviewable ''application/zip''"
    by (simp_all add: isPreviewable_def startsWith_def)
  have c: "map_option m_previewable (map_of (fileMetadata txt_store) ''id-1'') = Some True"
    by (simp add: txt_store_def txt_meta_def)
  show ?thesis
    using previewable_flag_and_refusal
            [of "''image/svg+xml''" empty_store "''id-1''" "''0.k3f9x2abc''" 1000 txt_part
                txt_response txt_store zip_store "''ZZZZZZ''" "''id-9''" zip_meta 5]
          previewable_flag_and_refusal
            [of "''application/zip''" empty_store "''id-1''" "''0.k3f9x2abc''" 1000 txt_part
                txt_response txt_store zip_store "''ZZZZZZ''" "''id-9''" zip_meta 5]
          u f np a b c
    by simp
qed

subsection \<open>C5: the two maps hold the same ids\<close>

text \<open>
  C5. Upload inserts into both maps under the same id, and the timer and the expired branch
  of download and preview delete from both maps under the same id. So after any sequence
  of uploads, downloads, previews and timer firings from the empty store, the two maps
  contain exactly the same ids, in the same order.
\<close>

theorem maps_hold_same_ids:
  "fst ` set (fileStorage (run evs empty_store)) =
     fst ` set (fileMetadata (run evs empty_store)) \<and>
   map fst (fileStorage (run evs empty_store)) = map fst (fileMetadata (run evs empty_store))"
proof -
  have "keys_agree (run evs empty_store)"
    by (rule keys_agree_run) (rule keys_agree_empty)
  then have eq: "map fst (fileStorage (run evs empty_store)) =
      map fst (fileMetadata (run evs empty_store))"
    by (simp only: keys_agree_def)
  have sets: "fst ` set (fileStorage (run evs empty_store)) =
      fst ` set (fileMetadata (run evs empty_store))"
    using arg_cong [OF eq, of set] by (simp only: set_map)
  from sets eq show ?thesis by (rule conjI)
qed

theorem maps_hold_same_ids_witness:
  "map fst (fileStorage (run one_upload empty_store)) = [''id-1''] \<and>
   map fst (fileMetadata (run one_upload empty_store)) = [''id-1''] \<and>
   map fst (fileStorage (run mixed_run empty_store)) = [] \<and>
   map fst (fileStorage (run mixed_run empty_store)) =
     map fst (fileMetadata (run mixed_run empty_store))"
  using maps_hold_same_ids [of one_upload] maps_hold_same_ids [of mixed_run]
  by (simp add: example_defs eval_defs)

subsection \<open>C6: the shape of a generated code\<close>

text \<open>
  C6 does not hold of the generator. It takes the six characters after \<open>0.\<close> of the
  base-36 rendering of the random number and does not pad: when the rendering has fewer
  than six digits after the point the code is shorter than six characters. The random
  number 0.5 renders as \<open>0.i\<close> and yields the one-character code \<open>I\<close>; the random
  number 0 renders as \<open>0\<close> and yields the empty code.
\<close>

theorem generateShortCode_short_rendering:
  "generateShortCode ''0.i'' = ''I'' \<and> length (generateShortCode ''0.i'') \<noteq> 6 \<and>
   generateShortCode ''0'' = []"
  by (simp add: eval_defs)

subsection \<open>C7: a payload above the size cap\<close>

text \<open>
  C7, as amended. An upload whose payload is longer than 10 MiB fails and creates no
  object: the store is returned unchanged. The failure is \<open>LimitFileSize\<close> when the content
  type is in the allow-list; multer runs the type filter on the headers of the part before
  it counts the bytes, so with a type outside the allow-list the failure is
  \<open>FileTypeNotAllowed\<close>.
\<close>

theorem upload_too_large:
  "10 * 1024 * 1024 < length (p_data pt) \<Longrightarrow>
   upload s fileId rendered now (Some pt) =
     (Inl (if p_mimetype pt \<in> set allowedTypes then LimitFileSize else FileTypeNotAllowed), s)"
  by (simp add: upload_def upload_single_def fileFilter_def fileSize_def)

theorem upload_too_large_witness:
  "10 * 1024 * 1024 < length (p_data big_png) \<and>
   p_mimetype big_png \<in> set allowedTypes \<and>
   upload txt_store ''id-2'' ''0.7q1m4zp0x'' 2000 (Some big_png) = (Inl LimitFileSize, txt_store)"
  using upload_too_large [of big_png txt_store "''id-2''" "''0.7q1m4zp0x''" 2000]
  by (simp add: big_png_def allowedTypes_def)

text \<open>
  The claim as written fails for a payload above the cap whose type is not allowed: the
  failure is the one of the type filter.
\<close>

theorem upload_too_large_other_type_counterexample:
  "10 * 1024 * 1024 < length (p_data big_zip) \<and>
   upload txt_store ''id-2'' ''0.7q1m4zp0x'' 2000 (Some big_zip) =
     (Inl FileTypeNotAllowed, txt_store) \<and>
   fst (upload txt_store ''id-2'' ''0.7q1m4zp0x'' 2000 (Some big_zip)) \<noteq> Inl LimitFileSize"
  by (simp add: big_zip_def upload_def upload_single_def fileFilter_def allowedTypes_def)

subsection \<open>C8: a content type outside the allow-list\<close>

text \<open>
  C8. The allow-list is the list of eleven types below, compared character by character.
  An upload fails with \<open>FileTypeNotAllowed\<close> exactly when its content type is not in the
  list, and then no object is created: the store is returned unchanged.
\<close>

theorem upload_unsupported_type:
  "(fst (upload s fileId rendered now (Some pt)) = Inl FileTypeNotAllowed \<longleftrightarrow>
      p_mimetype pt \<notin> set [''image/jpeg'', ''image/jpg'', ''image/png'', ''image/gif'',
                            ''image/webp'', ''video/mp4'', ''video/webm'', ''audio/mpeg'',
                            ''audio/wav'', ''text/plain'', ''application/pdf'']) \<and>
   (p_mimetype pt \<notin> set [''image/jpeg'', ''image/jpg'', ''image/png'', ''image/gif'',
                          ''image/webp'', ''video/mp4'', ''video/webm'', ''audio/mpeg'',
                          ''audio/wav'', ''text/plain'', ''application/pdf''] \<longrightarrow>
      upload s fileId rendered now (Some pt) = (Inl FileTypeNotAllowed, s))"
proof -
  have l: "[''image/jpeg'', ''image/jpg'', ''image/png'', ''image/gif'',
            ''image/webp'', ''video/mp4'', ''video/webm'', ''audio/mpeg'',
            ''audio/wav'', ''text/plain'', ''application/pdf''] = allowedTypes"
    by (simp add: allowedTypes_def)
  show ?thesis
    unfolding l
    by (simp add: upload_def upload_single_def upload_handler_def fileFilter_def Let_def)
qed

theorem upload_unsupported_type_witness:
  "upload txt_store ''id-2'' ''0.7q1m4zp0x'' 2000 (Some zip_part) =
     (Inl FileTypeNotAllowed, txt_store) \<and>
   upload txt_store ''id-2'' ''0.7q1m4zp0x'' 2000 (Some upper_png_part) =
     (Inl FileTypeNotAllowed, txt_store) \<and>
   fst (upload txt_store ''id-2'' ''0.7q1m4zp0x'' 2000 (Some pdf_part)) \<noteq>
     Inl FileTypeNotAllowed"
  using upload_unsupported_type [of txt_store "''id-2''" "''0.7q1m4zp0x''" 2000 zip_part]
        upload_unsupported_type [of txt_store "''id-2''" "''0.7q1m4zp0x''" 2000 upper_png_part]
        upload_unsupported_type [of txt_store "''id-2''" "''0.7q1m4zp0x''" 2000 pdf_part]
  by (simp add: zip_part_def upper_png_part_def pdf_part_def)

subsection \<open>C9: every uploaded object is previewable\<close>

text \<open>
  C9. Every type of the allow-list passes the preview test. So in every store that a run of
  the server reaches, every object has its previewable flag set and a preview URL, and
  preview never answers \<open>CannotPreview\<close>.
\<close>

theorem uploaded_objects_previewable:
  "set allowedTypes \<subseteq> Collect isPreviewable \<and>
   (\<forall>(fileId, meta) \<in> set (fileMetadata (run evs empty_store)).
       m_previewable meta \<and> m_previewUrl meta \<noteq> None) \<and>
   fst (preview (run evs empty_store) code now) \<noteq> Inl CannotPreview"
proof -
  have ap: "all_previewable (run evs empty_store)"
    by (rule all_previewable_run) (rule all_previewable_empty)
  then have a: "\<forall>(fileId, meta) \<in> set (fileMetadata (run evs empty_store)).
       m_previewable meta \<and> m_previewUrl meta \<noteq> None"
    by (simp add: all_previewable_def list_all_iff)
  have "fst (preview (run evs empty_store) code now) \<noteq> Inl CannotPreview"
  proof (cases "findByCode (fileMetadata (run evs empty_store)) code")
    case None
    then show ?thesis by (simp add: preview_def)
  next
    case (Some e)
    obtain fileId meta where e: "e = (fileId, meta)" by (cases e)
    with Some a have "m_previewable meta"
      using findByCode_mem [of "fileMetadata (run evs empty_store)" code fileId meta] by auto
    with Some e show ?thesis by (simp add: preview_def split: option.splits)
  qed
  with a show ?thesis by (auto simp: allowed_isPreviewable)
qed

theorem uploaded_objects_previewable_witness:
  "fileMetadata (run one_upload empty_store) = [(''id-1'', txt_meta)] \<and>
   map (\<lambda>(fileId, meta). m_previewable meta) (fileMetadata (run two_uploads empty_store)) =
     [True, True] \<and>
   map (\<lambda>(fileId, meta). m_previewUrl meta) (fileMetadata (run two_uploads empty_store)) =
     [Some ''/api/preview/K3F9X2'', Some ''/api/preview/K3F9X2''] \<and>
   map_sum id body (fst (preview (run one_upload empty_store) ''K3F9X2'' 2000)) = Inr hello \<and>
   fst (preview (run one_upload empty_store) ''K3F9X2'' 2000) \<noteq> Inl CannotPreview"
  using uploaded_objects_previewable [of one_upload "''K3F9X2''" 2000]
        uploaded_objects_previewable [of two_uploads "''K3F9X2''" 2000]
  by (simp add: example_defs eval_defs)

subsection \<open>C10: reads of an unknown code\<close>

text \<open>
  C10. Download and preview with a code that no live object carries answer \<open>FileNotFound\<close>
  (HTTP 404) and return the store unchanged; and whenever download or preview returns a
  store different from the one it was given, its answer is \<open>FileExpired\<close>.
\<close>

theorem unknown_code_not_found:
  "(code \<notin> set (live_codes s) \<longrightarrow>
      download s code now = (Inl FileNotFound, s) \<and>
      preview s code now = (Inl FileNotFound, s)) \<and>
   (snd (download s code now) \<noteq> s \<longrightarrow> fst (download s code now) = Inl FileExpired) \<and>
   (snd (preview s code now) \<noteq> s \<longrightarrow> fst (preview s code now) = Inl FileExpired) \<and>
   status FileNotFound = 404"
  using download_store_cases [of s code now] preview_store_cases [of s code now]
    findByCode_None [of "fileMetadata s" code]
  by (auto simp: live_codes_def download_def preview_def)

theorem unknown_code_not_found_witness:
  "''ABC123'' \<notin> set (live_codes txt_store) \<and>
   download txt_store ''ABC123'' 2000 = (Inl FileNotFound, txt_store) \<and>
   preview txt_store ''ABC123'' 2000 = (Inl FileNotFound, txt_store) \<and>
   snd (download txt_store ''K3F9X2'' 10801001) \<noteq> txt_store \<and>
   fst (download txt_store ''K3F9X2'' 10801001) = Inl FileExpired \<and>
   snd (preview txt_store ''K3F9X2'' 10801001) \<noteq> txt_store \<and>
   fst (preview txt_store ''K3F9X2'' 10801001) = Inl FileExpired"
  using unknown_code_not_found [of "''ABC123''" txt_store 2000]
        unknown_code_not_found [of "''K3F9X2''" txt_store 10801001]
  by (simp add: example_defs eval_defs)

end
